theory Spec2Isabelle
  imports Complex_Main "HOL-Library.Monad_Syntax"
begin

section \<open>SmartRace relay controller: the data model\<close>

text \<open>
  A shallow embedding of \<^verbatim>\<open>smartrace_relay.py\<close>. Times and configuration values are Python
  floats; a finite float is modelled by the real it denotes (rounding is not modelled), and
  the floats a JSON payload can bring in include the two infinities and not-a-number. Every
  \<^verbatim>\<open>time.sleep d\<close> advances the clock of the thread that executes it by \<open>d\<close>; every other
  statement takes no time.
\<close>

subsection \<open>Python strings and floats\<close>

text \<open>
  A Python string is a sequence of code points; \<^verbatim>\<open>json.loads\<close> can produce any of them,
  lone surrogates included. \<open>py\<close> is the string of a literal of the source.
\<close>

type_synonym pystr = "nat list"

definition py :: "string \<Rightarrow> pystr" where
  "py s = map of_char s"

datatype pyfloat = Finite real | PosInf | NegInf | NaN

text \<open>\<^verbatim>\<open>t + x\<close> for the finite time \<open>t\<close>.\<close>

fun float_add :: "real \<Rightarrow> pyfloat \<Rightarrow> pyfloat" where
  "float_add t (Finite d) = Finite (t + d)"
| "float_add t PosInf = PosInf"
| "float_add t NegInf = NegInf"
| "float_add t NaN = NaN"

text \<open>\<^verbatim>\<open>t >= x\<close> for the finite time \<open>t\<close>.\<close>

fun float_ge :: "real \<Rightarrow> pyfloat \<Rightarrow> bool" where
  "float_ge t (Finite e) = (e \<le> t)"
| "float_ge t PosInf = False"
| "float_ge t NegInf = True"
| "float_ge t NaN = False"

text \<open>
  Converting a Python int to a float raises \<^verbatim>\<open>OverflowError\<close> when the int does not round
  to a finite double: the largest double is \<open>2^1024 - 2^971\<close> and rounding is to nearest.
\<close>

definition int_to_float_ok :: "int \<Rightarrow> bool" where
  "int_to_float_ok n \<longleftrightarrow> \<bar>n\<bar> < 2 ^ 1024 - 2 ^ 970"

subsection \<open>The platform\<close>

text \<open>
  What the source leaves to the platform: whether \<^verbatim>\<open>datetime.fromtimestamp t\<close> returns for
  a finite \<open>t\<close> (it raises on a timestamp out of the platform's range), and which surrogate
  code points the encoding of \<^verbatim>\<open>sys.stdout\<close> accepts (none under the strict error handler).
  Every other code point is encodable: the program prints emoji from its first line on.
\<close>

record platform =
  timestamp_ok :: "real \<Rightarrow> bool"
  surrogate_ok :: "nat \<Rightarrow> bool"

definition surrogate :: "nat \<Rightarrow> bool" where
  "surrogate c \<longleftrightarrow> 0xD800 \<le> c \<and> c \<le> 0xDFFF"

definition encodable :: "platform \<Rightarrow> pystr \<Rightarrow> bool" where
  "encodable pf s = list_all (\<lambda>c. if surrogate c then surrogate_ok pf c else True) s"

text \<open>\<^verbatim>\<open>datetime.fromtimestamp\<close> raises on an infinity and on not-a-number.\<close>

fun fromtimestamp_ok :: "platform \<Rightarrow> pyfloat \<Rightarrow> bool" where
  "fromtimestamp_ok pf (Finite t) = timestamp_ok pf t"
| "fromtimestamp_ok pf _ = False"

subsection \<open>JSON values and Python's view of them\<close>

datatype json =
    JNull
  | JBool bool
  | JInt int
  | JFloat pyfloat
  | JStr pystr
  | JArr "json list"
  | JObj "(pystr \<times> json) list"

text \<open>Python truthiness, as used by \<^verbatim>\<open>if not x\<close>.\<close>

fun truthy :: "json \<Rightarrow> bool" where
  "truthy JNull = False"
| "truthy (JBool b) = b"
| "truthy (JInt n) = (n \<noteq> 0)"
| "truthy (JFloat x) = (x \<noteq> Finite 0)"
| "truthy (JStr s) = (s \<noteq> [])"
| "truthy (JArr xs) = (xs \<noteq> [])"
| "truthy (JObj kvs) = (kvs \<noteq> [])"

text \<open>
  \<^verbatim>\<open>x.get(key, default)\<close>: only a dict has the method; on any other value Python raises
  \<^verbatim>\<open>AttributeError\<close>, which is \<open>None\<close> here. A parsed object is the list of its
  members; its keys are distinct.
\<close>

fun py_get :: "json \<Rightarrow> pystr \<Rightarrow> json \<Rightarrow> json option" where
  "py_get (JObj kvs) k d = Some (case map_of kvs k of Some v \<Rightarrow> v | None \<Rightarrow> d)"
| "py_get _ k d = None"

text \<open>
  The right operand of \<^verbatim>\<open>time.time() + duration\<close>, as the float that is added: a float, an
  int that converts to a float (\<^verbatim>\<open>OverflowError\<close> otherwise), or a bool (an int in Python);
  anything else raises \<^verbatim>\<open>TypeError\<close>.
\<close>

fun py_number :: "json \<Rightarrow> pyfloat option" where
  "py_number (JInt n) = (if int_to_float_ok n then Some (Finite (of_int n)) else None)"
| "py_number (JFloat x) = Some x"
| "py_number (JBool b) = Some (Finite (if b then 1 else 0))"
| "py_number _ = None"

text \<open>
  \<^verbatim>\<open>print\<close> of an f-string that formats the value: a string is written as it is and must be
  encodable; every other value is written through \<^verbatim>\<open>str\<close>, which escapes the surrogates
  inside it.
\<close>

fun print_ok :: "platform \<Rightarrow> json \<Rightarrow> bool" where
  "print_ok pf (JStr s) = encodable pf s"
| "print_ok pf _ = True"

subsection \<open>Module constants and global state\<close>

definition RELAY1_PIN :: nat where "RELAY1_PIN = 18"
definition RELAY2_PIN :: nat where "RELAY2_PIN = 23"

record event =
  ev_time :: real
  ev_type :: json
  ev_data :: json

record globals =
  GPIO_AVAILABLE :: bool
  relay1_state :: bool
  relay2_state :: bool
  vsc_active :: bool
  vsc_end_time :: "pyfloat option"
  last_smartrace_event :: "event option"
  smartrace_events_log :: "event list"
  pulse_duration :: real
  relay1_delay :: real

text \<open>The values the module assigns at import; \<open>gpio\<close> is whether \<^verbatim>\<open>RPi.GPIO\<close> imported.\<close>

definition initial_globals :: "bool \<Rightarrow> globals" where
  "initial_globals gpio =
     \<lparr> GPIO_AVAILABLE = gpio, relay1_state = False, relay2_state = False,
       vsc_active = False, vsc_end_time = None,
       last_smartrace_event = None, smartrace_events_log = [],
       pulse_duration = 0.5, relay1_delay = 5.0 \<rparr>"

subsection \<open>Threads, clock and driver\<close>

text \<open>
  What one thread of the program sees and changes: the module globals, the time on its own
  clock, the pulse threads started so far by \<^verbatim>\<open>pulse_relay_threaded\<close> (start time, pin,
  source) and the calls \<^verbatim>\<open>GPIO.output(pin, level)\<close> made so far (time, pin, level), each listed
  whether or not the driver raised on it.
\<close>

record world =
  glob :: globals
  clock :: real
  threads :: "(real \<times> nat \<times> string) list"
  gpio_calls :: "(real \<times> nat \<times> bool) list"

text \<open>\<^verbatim>\<open>time.sleep\<close> raises \<^verbatim>\<open>ValueError\<close> on a negative length.\<close>

definition sleep :: "real \<Rightarrow> world \<Rightarrow> world option" where
  "sleep d w = (if d < 0 then None else Some (w\<lparr>clock := clock w + d\<rparr>))"

text \<open>
  \<^verbatim>\<open>GPIO.output\<close>: the call is made; \<open>raises pin level\<close> says whether the driver raises on
  it. The first component of the result is whether the call returned normally.
\<close>

definition gpio_output :: "(nat \<Rightarrow> bool \<Rightarrow> bool) \<Rightarrow> nat \<Rightarrow> bool \<Rightarrow> world \<Rightarrow> bool \<times> world" where
  "gpio_output raises p level w =
     (\<not> raises p level, w\<lparr>gpio_calls := gpio_calls w @ [(clock w, p, level)]\<rparr>)"

definition set_relay_state :: "nat \<Rightarrow> bool \<Rightarrow> world \<Rightarrow> world" where
  "set_relay_state relay_pin v w =
     (if relay_pin = RELAY1_PIN
      then w\<lparr>glob := (glob w)\<lparr>relay1_state := v\<rparr>\<rparr>
      else w\<lparr>glob := (glob w)\<lparr>relay2_state := v\<rparr>\<rparr>)"

section \<open>The relay pulse\<close>

text \<open>
  \<^verbatim>\<open>pulse_relay\<close>, run on the pulse thread's own clock. Any exception inside the \<^verbatim>\<open>try\<close>
  ends the call with \<^verbatim>\<open>False\<close> at the point where it was raised.
\<close>

definition pulse_relay :: "(nat \<Rightarrow> bool \<Rightarrow> bool) \<Rightarrow> nat \<Rightarrow> world \<Rightarrow> bool \<times> world" where
  "pulse_relay raises relay_pin w =
     (if GPIO_AVAILABLE (glob w) then
        (case gpio_output raises relay_pin True w of
           (False, w1) \<Rightarrow> (False, w1)
         | (True, w1) \<Rightarrow>
             (let w2 = set_relay_state relay_pin True w1 in
              (case sleep (pulse_duration (glob w2)) w2 of
                 None \<Rightarrow> (False, w2)
               | Some w3 \<Rightarrow>
                   (case gpio_output raises relay_pin False w3 of
                      (False, w4) \<Rightarrow> (False, w4)
                    | (True, w4) \<Rightarrow> (True, set_relay_state relay_pin False w4)))))
      else (True, w))"

text \<open>\<^verbatim>\<open>pulse_relay_threaded\<close> starts the thread and returns at once.\<close>

definition pulse_relay_threaded :: "nat \<Rightarrow> string \<Rightarrow> world \<Rightarrow> world" where
  "pulse_relay_threaded relay_pin source w =
     w\<lparr>threads := threads w @ [(clock w, relay_pin, source)]\<rparr>"

section \<open>The countdown monitor\<close>

text \<open>
  One pass through the body of the \<^verbatim>\<open>while True\<close> loop of \<^verbatim>\<open>monitor_vsc_timer\<close>. Run
  without interference from other threads, the \<^verbatim>\<open>try\<close> block cannot raise (the comparison is
  guarded by the test for \<^verbatim>\<open>None\<close>), so the pass ends with the 100 ms sleep.
\<close>

definition monitor_iteration :: "world \<Rightarrow> world" where
  "monitor_iteration w =
     (let w1 =
        (if vsc_active (glob w) \<and> vsc_end_time (glob w) \<noteq> None then
           (let current_time = clock w in
            if float_ge current_time (the (vsc_end_time (glob w))) then
              (let w2 = pulse_relay_threaded RELAY2_PIN ''VSC Timer End'' w in
               w2\<lparr>glob := (glob w2)\<lparr>vsc_active := False, vsc_end_time := None\<rparr>\<rparr>)
            else w)
         else w)
      in w1\<lparr>clock := clock w1 + 0.1\<rparr>)"


section \<open>The event ingestion handler\<close>

definition vsc_deployed_names :: "pystr list" where
  "vsc_deployed_names =
     map py [''race.vsc_deployed'', ''vscDeployed'', ''vsc_deployed'', ''vsc_started'',
             ''VSC_DEPLOYED'']"

definition vsc_withdrawn_names :: "pystr list" where
  "vsc_withdrawn_names =
     map py [''race.vsc_retracted'', ''vsc_Withdrawn'', ''vsc_withdrawn'', ''vscEnded'',
             ''vsc_ended'', ''VSC_WITHDRAWN'']"

text \<open>\<^verbatim>\<open>x in [...]\<close> for a list of strings: equality with one of them.\<close>

fun py_in :: "json \<Rightarrow> pystr list \<Rightarrow> bool" where
  "py_in (JStr s) names = (s \<in> set names)"
| "py_in _ names = False"

text \<open>The classification field: \<^verbatim>\<open>event_type\<close>, or \<^verbatim>\<open>type\<close> when that is missing or falsy.\<close>

definition event_type_of :: "json \<Rightarrow> json option" where
  "event_type_of data =
     do { event_type \<leftarrow> py_get data (py ''event_type'') (JStr []);
          if \<not> truthy event_type then py_get data (py ''type'') (JStr []) else Some event_type }"

text \<open>
  The duration of a start event: the object at \<^verbatim>\<open>event.data\<close>, replaced by the top-level
  \<^verbatim>\<open>data\<close> when it is missing or falsy, then its \<^verbatim>\<open>duration\<close> with default 60.
\<close>

definition vsc_duration :: "json \<Rightarrow> json option" where
  "vsc_duration data =
     do { ev \<leftarrow> py_get data (py ''event'') (JObj []);
          vsc_data \<leftarrow> py_get ev (py ''data'') (JObj []);
          vsc_data \<leftarrow> (if \<not> truthy vsc_data then py_get data (py ''data'') (JObj [])
                       else Some vsc_data);
          py_get vsc_data (py ''duration'') (JInt 60) }"

text \<open>
  \<open>Ok_200\<close> is status 200 with the body \<^verbatim>\<open>{"status":"ok"}\<close>; \<open>Error_500\<close> is what the
  \<^verbatim>\<open>except\<close> branch of the handler sends.
\<close>

datatype response = Ok_200 | Error_500

text \<open>Lines 303 to 311: the event record, appended to a log of at most 100 entries.\<close>

definition record_event :: "json \<Rightarrow> json \<Rightarrow> world \<Rightarrow> world" where
  "record_event event_type data w =
     (let e = \<lparr>ev_time = clock w, ev_type = event_type, ev_data = data\<rparr>;
          log = smartrace_events_log (glob w) @ [e]
      in w\<lparr>glob := (glob w)\<lparr>last_smartrace_event := Some e,
             smartrace_events_log := (if length log > 100 then tl log else log)\<rparr>\<rparr>)"

text \<open>
  The start branch, lines 318 to 336: the duration lookup, the \<^verbatim>\<open>print\<close> of the duration,
  the wait, the start pulse, the two assignments to the window and the \<^verbatim>\<open>print\<close> that
  formats the deadline with \<^verbatim>\<open>datetime.fromtimestamp\<close>. An exception leaves the globals as
  they are at the statement that raised.
\<close>

definition vsc_deployed :: "platform \<Rightarrow> json \<Rightarrow> world \<Rightarrow> response \<times> world" where
  "vsc_deployed pf data w =
     (case vsc_duration data of
        None \<Rightarrow> (Error_500, w)
      | Some duration \<Rightarrow>
          if \<not> print_ok pf duration then (Error_500, w)
          else
          (case sleep (relay1_delay (glob w)) w of
             None \<Rightarrow> (Error_500, w)
           | Some w1 \<Rightarrow>
               (let w2 = pulse_relay_threaded RELAY1_PIN ''VSC Start'' w1;
                    w3 = w2\<lparr>glob := (glob w2)\<lparr>vsc_active := True\<rparr>\<rparr>
                in (case py_number duration of
                      None \<Rightarrow> (Error_500, w3)
                    | Some d \<Rightarrow>
                        (let end_time = float_add (clock w3) d;
                             w4 = w3\<lparr>glob := (glob w3)\<lparr>vsc_end_time := Some end_time\<rparr>\<rparr>
                         in if fromtimestamp_ok pf end_time then (Ok_200, w4)
                            else (Error_500, w4))))))"

text \<open>The withdraw branch.\<close>

definition vsc_withdrawn :: "world \<Rightarrow> world" where
  "vsc_withdrawn w =
     (let w1 = pulse_relay_threaded RELAY2_PIN ''VSC Manual Retract'' w
      in w1\<lparr>glob := (glob w1)\<lparr>vsc_active := False, vsc_end_time := None\<rparr>\<rparr>)"

text \<open>
  \<^verbatim>\<open>SmartRaceDataHandler.do_POST\<close>. Lines 281 to 295 read the body, decode it, parse it and
  print it back (\<^verbatim>\<open>json.dumps\<close>); they touch no global, and when any of them raises the
  answer is 500: that is the request \<open>None\<close>. Otherwise the request is the parsed value. The
  event is recorded before line 313 prints its type, so a type that cannot be printed is
  answered with 500 after the event was logged.
\<close>

definition do_POST :: "platform \<Rightarrow> json option \<Rightarrow> world \<Rightarrow> response \<times> world" where
  "do_POST pf request w =
     (case request of
        None \<Rightarrow> (Error_500, w)
      | Some data \<Rightarrow>
          (case event_type_of data of
             None \<Rightarrow> (Error_500, w)
           | Some event_type \<Rightarrow>
               (let w1 = record_event event_type data w in
                if \<not> print_ok pf event_type then (Error_500, w1)
                else if py_in event_type vsc_deployed_names then vsc_deployed pf data w1
                else if py_in event_type vsc_withdrawn_names then (Ok_200, vsc_withdrawn w1)
                else (Ok_200, w1))))"

text \<open>A world at time \<open>t\<close> with the given globals and nothing started yet.\<close>

definition world_at :: "real \<Rightarrow> globals \<Rightarrow> world" where
  "world_at t g = \<lparr>glob = g, clock = t, threads = [], gpio_calls = []\<rparr>"

section \<open>Configuration: load, save, update\<close>

text \<open>
  The configuration file as \<^verbatim>\<open>load_config\<close> meets it: absent, unreadable (any exception
  while opening, parsing or reading the fields), or a JSON object of numbers, which is what
  \<^verbatim>\<open>save_config\<close> writes.
\<close>

datatype config_file = NoFile | Unreadable | Stored "(string \<times> real) list"

definition config_get :: "(string \<times> real) list \<Rightarrow> string \<Rightarrow> real \<Rightarrow> real" where
  "config_get config k d = (case map_of config k of Some v \<Rightarrow> v | None \<Rightarrow> d)"

text \<open>
  \<^verbatim>\<open>load_config\<close> declares \<^verbatim>\<open>global pulse_duration\<close> only, so its assignment to
  \<^verbatim>\<open>relay1_delay\<close> binds a local variable (used by the following \<^verbatim>\<open>print\<close>) and the
  global keeps its value.
\<close>

definition load_config :: "config_file \<Rightarrow> globals \<Rightarrow> globals" where
  "load_config file g =
     (case file of
        NoFile \<Rightarrow> g
      | Unreadable \<Rightarrow> g\<lparr>pulse_duration := 0.5\<rparr>
      | Stored config \<Rightarrow>
          (let g1 = g\<lparr>pulse_duration := config_get config ''pulse_duration'' 0.5\<rparr>;
               local_relay1_delay = config_get config ''relay1_delay'' 5.0
           in g1))"

text \<open>\<^verbatim>\<open>save_config\<close>; when the file cannot be opened for writing it is left as it was.\<close>

definition save_config :: "bool \<Rightarrow> globals \<Rightarrow> config_file \<Rightarrow> config_file" where
  "save_config writable g file =
     (if writable
      then Stored [(''pulse_duration'', pulse_duration g), (''relay1_delay'', relay1_delay g)]
      else file)"

text \<open>The state in which \<^verbatim>\<open>main\<close> starts the threads: the import-time values, then \<^verbatim>\<open>load_config\<close>.\<close>

definition startup :: "bool \<Rightarrow> config_file \<Rightarrow> globals" where
  "startup gpio file = load_config file (initial_globals gpio)"

text \<open>
  One form field of the \<^verbatim>\<open>/set-pulse\<close> request after \<^verbatim>\<open>parse_qs\<close>: absent, present with
  text that \<^verbatim>\<open>float\<close> rejects, or present with a number.
\<close>

datatype form_field = Missing | Malformed | Given real

text \<open>\<^verbatim>\<open>float(params.get(key, [d])[0])\<close>; \<open>None\<close> is the \<^verbatim>\<open>ValueError\<close>.\<close>

fun field_float :: "form_field \<Rightarrow> real \<Rightarrow> real option" where
  "field_float Missing d = Some d"
| "field_float Malformed d = None"
| "field_float (Given x) d = Some x"

text \<open>
  The \<^verbatim>\<open>/set-pulse\<close> branch of \<^verbatim>\<open>WebHandler.do_POST\<close>. The result is the response status
  (\<open>None\<close>: an exception was caught and nothing was sent), the globals and the file.
\<close>

definition set_pulse ::
  "bool \<Rightarrow> form_field \<Rightarrow> form_field \<Rightarrow> globals \<times> config_file \<Rightarrow> nat option \<times> globals \<times> config_file"
where
  "set_pulse writable f_duration f_delay st =
     (case st of (g, file) \<Rightarrow>
        (case field_float f_duration 0.5 of
           None \<Rightarrow> (None, g, file)
         | Some new_duration \<Rightarrow>
             (case field_float f_delay 5.0 of
                None \<Rightarrow> (None, g, file)
              | Some new_delay \<Rightarrow>
                  (let g1 = (if 0.1 \<le> new_duration \<and> new_duration \<le> 5
                             then g\<lparr>pulse_duration := new_duration\<rparr> else g);
                       g2 = (if 0 \<le> new_delay \<and> new_delay \<le> 30
                             then g1\<lparr>relay1_delay := new_delay\<rparr> else g1)
                   in (Some 302, g2, save_config writable g2 file)))))"

text \<open>The bounds of the two configuration values.\<close>

definition config_in_bounds :: "globals \<Rightarrow> bool" where
  "config_in_bounds g \<longleftrightarrow>
     0.1 \<le> pulse_duration g \<and> pulse_duration g \<le> 5 \<and> 0 \<le> relay1_delay g \<and> relay1_delay g \<le> 30"

section \<open>Concrete drivers, worlds and events\<close>

text \<open>A driver that never raises, and one that raises on every "on" call.\<close>

definition raises_never :: "nat \<Rightarrow> bool \<Rightarrow> bool" where
  "raises_never p level = False"

definition raises_on_high :: "nat \<Rightarrow> bool \<Rightarrow> bool" where
  "raises_on_high p level = level"

text \<open>
  A platform on which \<^verbatim>\<open>datetime.fromtimestamp\<close> accepts every finite timestamp and
  \<^verbatim>\<open>sys.stdout\<close> encodes no surrogate.
\<close>

definition strict_platform :: platform where
  "strict_platform = \<lparr>timestamp_ok = (\<lambda>t. True), surrogate_ok = (\<lambda>c. False)\<rparr>"

text \<open>The energized flag that \<^verbatim>\<open>pulse_relay\<close> keeps for a pin.\<close>

definition relay_state :: "nat \<Rightarrow> world \<Rightarrow> bool" where
  "relay_state relay_pin w =
     (if relay_pin = RELAY1_PIN then relay1_state (glob w) else relay2_state (glob w))"

text \<open>The program just after startup with the default configuration, at time 0.\<close>

definition idle_world :: world where
  "idle_world = world_at 0 (initial_globals True)"

definition withdraw_event :: json where
  "withdraw_event = JObj [(py ''event_type'', JStr (py ''vsc_withdrawn''))]"

text \<open>A world at time 70 whose window is open with deadline 65.\<close>

definition open_world :: world where
  "open_world =
     world_at 70
       ((initial_globals True)\<lparr>vsc_active := True, vsc_end_time := Some (Finite 65)\<rparr>)"

text \<open>A world at time 64.85 whose window is open with deadline 65.\<close>

definition waiting_world :: world where
  "waiting_world =
     world_at 64.85
       ((initial_globals True)\<lparr>vsc_active := True, vsc_end_time := Some (Finite 65)\<rparr>)"

definition start_event :: json where
  "start_event =
     JObj [(py ''type'', JStr (py ''vsc_deployed'')),
           (py ''data'', JObj [(py ''duration'', JInt 60)])]"



definition start_event_bad_event :: json where
  "start_event_bad_event =
     JObj [(py ''event_type'', JStr (py ''vsc_deployed'')), (py ''event'', JStr (py ''x''))]"

definition unknown_event :: json where
  "unknown_event = JObj [(py ''event_type'', JStr (py ''foo''))]"

definition start_event_list_data :: json where
  "start_event_list_data =
     JObj [(py ''type'', JStr (py ''vsc_deployed'')), (py ''data'', JArr [JInt 60])]"

text \<open>An integer that is valid JSON and too large for a float.\<close>

definition huge_int :: int where
  "huge_int = 2 ^ 1024"

definition start_event_huge_duration :: json where
  "start_event_huge_duration =
     JObj [(py ''type'', JStr (py ''vsc_deployed'')),
           (py ''data'', JObj [(py ''duration'', JInt huge_int)])]"

text \<open>An event whose type is the one-character string of the lone surrogate U+D800.\<close>

definition surrogate_event :: json where
  "surrogate_event = JObj [(py ''event_type'', JStr [0xD800])]"

section \<open>The ingestion server\<close>

text \<open>
  \<^verbatim>\<open>start_smartrace_data_server\<close> runs \<^verbatim>\<open>HTTPServer.serve_forever\<close>: the standard library's
  \<^verbatim>\<open>HTTPServer\<close> has no threading mix-in, so the server thread handles one request at a
  time, each when it has arrived and the handler of the one before has returned. The
  requests are given with their arrival times, in order of arrival.
\<close>

fun serve_forever :: "platform \<Rightarrow> (real \<times> json option) list \<Rightarrow> world \<Rightarrow> world" where
  "serve_forever pf [] w = w"
| "serve_forever pf ((arrival, request) # rest) w =
     serve_forever pf rest (snd (do_POST pf request (w\<lparr>clock := max (clock w) arrival\<rparr>)))"

section \<open>Monitor and withdraw handler, running one after the other\<close>

text \<open>
  Whole passes of the monitor loop and whole withdraw handlers in some order, none started
  before the one before it has finished.
\<close>

datatype action = Poll | Incoming json

fun act :: "platform \<Rightarrow> action \<Rightarrow> world \<Rightarrow> world" where
  "act pf Poll w = monitor_iteration w"
| "act pf (Incoming data) w = snd (do_POST pf (Some data) w)"

fun run :: "platform \<Rightarrow> action list \<Rightarrow> world \<Rightarrow> world" where
  "run pf [] w = w"
| "run pf (a # as) w = run pf as (act pf a w)"

definition withdraw_class :: "json \<Rightarrow> bool" where
  "withdraw_class data =
     (case event_type_of data of Some et \<Rightarrow> py_in et vsc_withdrawn_names | None \<Rightarrow> False)"

fun poll_or_withdraw :: "action \<Rightarrow> bool" where
  "poll_or_withdraw Poll = True"
| "poll_or_withdraw (Incoming data) = withdraw_class data"

section \<open>Monitor and withdraw handler, interleaved\<close>

text \<open>
  The program takes no lock. The monitor thread and the server thread run the statements
  below one at a time in any order. The monitor's statements are those of the loop body of
  \<^verbatim>\<open>monitor_vsc_timer\<close> (lines 143 to 153); the handler's are those of the withdraw branch of
  \<^verbatim>\<open>do_POST\<close> (lines 341 to 343).
\<close>

datatype monitor_pc =
    M_test            \<comment> \<open>line 143: \<^verbatim>\<open>if vsc_active and vsc_end_time is not None\<close>\<close>
  | M_compare         \<comment> \<open>lines 144, 145: read the time, compare with \<^verbatim>\<open>vsc_end_time\<close>\<close>
  | M_pulse           \<comment> \<open>line 147: \<^verbatim>\<open>pulse_relay_threaded\<close>\<close>
  | M_clear_active    \<comment> \<open>line 148\<close>
  | M_clear_end_time  \<comment> \<open>line 149\<close>
  | M_sleep           \<comment> \<open>line 150\<close>
  | M_except          \<comment> \<open>lines 152, 153\<close>

datatype withdraw_pc =
    W_pulse           \<comment> \<open>line 341: \<^verbatim>\<open>pulse_relay_threaded\<close>\<close>
  | W_clear_active    \<comment> \<open>line 342\<close>
  | W_clear_end_time  \<comment> \<open>line 343\<close>
  | W_done

record threaded =
  shared :: world
  monitor_at :: monitor_pc
  withdraw_at :: withdraw_pc

fun monitor_step :: "monitor_pc \<Rightarrow> world \<Rightarrow> monitor_pc \<times> world" where
  "monitor_step M_test w =
     (if vsc_active (glob w) \<and> vsc_end_time (glob w) \<noteq> None then (M_compare, w)
      else (M_sleep, w))"
| "monitor_step M_compare w =
     (case vsc_end_time (glob w) of
        None \<Rightarrow> (M_except, w)
      | Some end_time \<Rightarrow> if float_ge (clock w) end_time then (M_pulse, w) else (M_sleep, w))"
| "monitor_step M_pulse w = (M_clear_active, pulse_relay_threaded RELAY2_PIN ''VSC Timer End'' w)"
| "monitor_step M_clear_active w = (M_clear_end_time, w\<lparr>glob := (glob w)\<lparr>vsc_active := False\<rparr>\<rparr>)"
| "monitor_step M_clear_end_time w = (M_sleep, w\<lparr>glob := (glob w)\<lparr>vsc_end_time := None\<rparr>\<rparr>)"
| "monitor_step M_sleep w = (M_test, w\<lparr>clock := clock w + 0.1\<rparr>)"
| "monitor_step M_except w = (M_test, w\<lparr>clock := clock w + 1\<rparr>)"

fun withdraw_step :: "withdraw_pc \<Rightarrow> world \<Rightarrow> withdraw_pc \<times> world" where
  "withdraw_step W_pulse w =
     (W_clear_active, pulse_relay_threaded RELAY2_PIN ''VSC Manual Retract'' w)"
| "withdraw_step W_clear_active w =
     (W_clear_end_time, w\<lparr>glob := (glob w)\<lparr>vsc_active := False\<rparr>\<rparr>)"
| "withdraw_step W_clear_end_time w = (W_done, w\<lparr>glob := (glob w)\<lparr>vsc_end_time := None\<rparr>\<rparr>)"
| "withdraw_step W_done w = (W_done, w)"

datatype thread_id = Monitor | Server

fun step :: "thread_id \<Rightarrow> threaded \<Rightarrow> threaded" where
  "step Monitor s =
     (case monitor_step (monitor_at s) (shared s) of
        (pc, w) \<Rightarrow> s\<lparr>shared := w, monitor_at := pc\<rparr>)"
| "step Server s =
     (case withdraw_step (withdraw_at s) (shared s) of
        (pc, w) \<Rightarrow> s\<lparr>shared := w, withdraw_at := pc\<rparr>)"

fun schedule :: "thread_id list \<Rightarrow> threaded \<Rightarrow> threaded" where
  "schedule [] s = s"
| "schedule (t # ts) s = schedule ts (step t s)"

text \<open>
  The window of \<open>open_world\<close> is open and due; the monitor is about to test it and the
  server thread is about to run the withdraw branch for an event it has classified.
\<close>

definition racing :: threaded where
  "racing = \<lparr>shared = open_world, monitor_at = M_test, withdraw_at = W_pulse\<rparr>"

text \<open>A configuration file whose stored values, where present, lie within the bounds.\<close>

definition stored_in_bounds :: "config_file \<Rightarrow> bool" where
  "stored_in_bounds file \<longleftrightarrow>
     (case file of
        Stored config \<Rightarrow>
          0.1 \<le> config_get config ''pulse_duration'' 0.5
          \<and> config_get config ''pulse_duration'' 0.5 \<le> 5
          \<and> 0 \<le> config_get config ''relay1_delay'' 5.0
          \<and> config_get config ''relay1_delay'' 5.0 \<le> 30
      | _ \<Rightarrow> True)"

section \<open>Configuration: results\<close>

text \<open>
  C7. At startup the stored \<^verbatim>\<open>relay1_delay\<close> is read into a local variable and does not
  reach the global: with a file holding pulse duration 1 and delay 10, the pulse duration in
  effect is 1 and the start delay in effect is still the default 5.
\<close>

theorem C7_loaded_delay_not_applied:
  "pulse_duration (startup True (Stored [(''pulse_duration'', 1), (''relay1_delay'', 10)])) = 1
   \<and> relay1_delay (startup True (Stored [(''pulse_duration'', 1), (''relay1_delay'', 10)])) = 5"
  by (simp add: startup_def load_config_def initial_globals_def config_get_def)

text \<open>
  C10. In one \<^verbatim>\<open>/set-pulse\<close> request carrying both fields the two bounds checks are
  independent: an out-of-range pulse duration with an in-range delay keeps the old pulse
  duration and applies the new delay, and symmetrically; the mixed record is what
  \<^verbatim>\<open>save_config\<close> then writes to the (writable) configuration file.
\<close>

theorem C10_update_per_field:
  "(\<not> (0.1 \<le> d \<and> d \<le> 5) \<and> 0 \<le> l \<and> l \<le> 30 \<longrightarrow>
      set_pulse True (Given d) (Given l) (g, file) =
        (Some 302, g\<lparr>relay1_delay := l\<rparr>,
         Stored [(''pulse_duration'', pulse_duration g), (''relay1_delay'', l)]))
   \<and> (0.1 \<le> d \<and> d \<le> 5 \<and> \<not> (0 \<le> l \<and> l \<le> 30) \<longrightarrow>
      set_pulse True (Given d) (Given l) (g, file) =
        (Some 302, g\<lparr>pulse_duration := d\<rparr>,
         Stored [(''pulse_duration'', d), (''relay1_delay'', relay1_delay g)]))"
  by (auto simp add: set_pulse_def save_config_def Let_def)

theorem C10_update_per_field_witness:
  "set_pulse True (Given 10) (Given 12) (initial_globals True, NoFile) =
     (Some 302, (initial_globals True)\<lparr>relay1_delay := 12\<rparr>,
      Stored [(''pulse_duration'', pulse_duration (initial_globals True)), (''relay1_delay'', 12)])
   \<and> set_pulse True (Given 2) (Given 31) (initial_globals True, NoFile) =
     (Some 302, (initial_globals True)\<lparr>pulse_duration := 2\<rparr>,
      Stored [(''pulse_duration'', 2), (''relay1_delay'', relay1_delay (initial_globals True))])"
  using C10_update_per_field [of 10 12 "initial_globals True" NoFile]
        C10_update_per_field [of 2 31 "initial_globals True" NoFile]
  by simp

section \<open>The relay pulse: results\<close>

text \<open>
  C3, as the claim states it, fails: when the driver raises on the "on" call the pulse
  returns \<^verbatim>\<open>False\<close> at once and the only call made is that "on" call; no "off" call follows.
\<close>

theorem C3_on_failure_no_off:
  "pulse_relay raises_on_high RELAY1_PIN (world_at 0 (initial_globals True)) =
     (False, (world_at 0 (initial_globals True))\<lparr>gpio_calls := [(0, RELAY1_PIN, True)]\<rparr>)"
  by (simp add: pulse_relay_def gpio_output_def raises_on_high_def world_at_def
      initial_globals_def)

text \<open>
  C3, amended. With the GPIO library available and a pulse duration in [0.1, 5.0]: a pulse
  on which the driver raises on neither call makes the "on" call, then, one pulse duration
  later, the "off" call, returns \<^verbatim>\<open>True\<close> and leaves the energized flag of the pin false;
  a pulse whose "on" call raises returns \<^verbatim>\<open>False\<close> with that call as the only one made and
  with the globals unchanged.
\<close>

theorem C3_pulse:
  assumes "GPIO_AVAILABLE (glob w)"
    and "0.1 \<le> pulse_duration (glob w)" and "pulse_duration (glob w) \<le> 5"
  shows "(\<not> raises p True \<and> \<not> raises p False \<longrightarrow>
            fst (pulse_relay raises p w) = True
          \<and> gpio_calls (snd (pulse_relay raises p w)) =
              gpio_calls w @ [(clock w, p, True), (clock w + pulse_duration (glob w), p, False)]
          \<and> relay_state p (snd (pulse_relay raises p w)) = False)
       \<and> (raises p True \<longrightarrow>
            pulse_relay raises p w =
              (False, w\<lparr>gpio_calls := gpio_calls w @ [(clock w, p, True)]\<rparr>))"
  using assms
  by (auto simp add: pulse_relay_def gpio_output_def sleep_def set_relay_state_def
      relay_state_def Let_def)

theorem C3_pulse_witness:
  "GPIO_AVAILABLE (glob (world_at 5 (initial_globals True)))
   \<and> fst (pulse_relay raises_never RELAY1_PIN (world_at 5 (initial_globals True))) = True
   \<and> gpio_calls (snd (pulse_relay raises_never RELAY1_PIN (world_at 5 (initial_globals True)))) =
       [(5, RELAY1_PIN, True), (5.5, RELAY1_PIN, False)]
   \<and> relay_state RELAY1_PIN
       (snd (pulse_relay raises_never RELAY1_PIN (world_at 5 (initial_globals True)))) = False
   \<and> pulse_relay raises_on_high RELAY2_PIN (world_at 5 (initial_globals True)) =
       (False, (world_at 5 (initial_globals True))\<lparr>gpio_calls := [(5, RELAY2_PIN, True)]\<rparr>)"
  using C3_pulse [of "world_at 5 (initial_globals True)" raises_never RELAY1_PIN]
        C3_pulse [of "world_at 5 (initial_globals True)" raises_on_high RELAY2_PIN]
  by (simp add: world_at_def initial_globals_def raises_never_def raises_on_high_def)

section \<open>The event handler: results\<close>

text \<open>Literals of the source are told apart as strings, are encodable and are short ints.\<close>

lemma py_eq_iff [simp]: "py s = py t \<longleftrightarrow> s = t"
  by (simp add: py_def inj_map_eq_map [OF inj_of_char])

lemma py_Nil_iff [simp]: "py s = [] \<longleftrightarrow> s = []"
  by (simp add: py_def)

lemma Nil_py_iff [simp]: "[] = py s \<longleftrightarrow> s = []"
  by (simp add: py_def)

lemma encodable_py [simp]: "encodable pf (py s)"
proof -
  have "\<not> surrogate (of_char c)" for c :: char
  proof -
    have "of_char c < (256::nat)" by simp
    then show ?thesis unfolding surrogate_def by linarith
  qed
  then show ?thesis by (simp add: encodable_def py_def list_all_iff)
qed

lemma int_to_float_ok_small: "\<bar>n\<bar> < 2 ^ 64 \<Longrightarrow> int_to_float_ok n"
proof -
  assume "\<bar>n\<bar> < 2 ^ 64"
  moreover have "(2::int) ^ 64 \<le> 2 ^ 1024 - 2 ^ 970" by simp
  ultimately show ?thesis unfolding int_to_float_ok_def by linarith
qed

lemma deployed_printable: "py_in et vsc_deployed_names \<Longrightarrow> print_ok pf et"
  by (cases et) (auto simp add: vsc_deployed_names_def)

lemma withdrawn_printable: "py_in et vsc_withdrawn_names \<Longrightarrow> print_ok pf et"
  by (cases et) (auto simp add: vsc_withdrawn_names_def)

lemma withdrawn_not_deployed:
  "py_in et vsc_withdrawn_names \<Longrightarrow> \<not> py_in et vsc_deployed_names"
  by (cases et) (auto simp add: vsc_withdrawn_names_def vsc_deployed_names_def)

lemma do_POST_withdraw:
  "event_type_of data = Some et \<Longrightarrow> py_in et vsc_withdrawn_names \<Longrightarrow>
     do_POST pf (Some data) w = (Ok_200, vsc_withdrawn (record_event et data w))"
  using withdrawn_not_deployed [of et] withdrawn_printable [of et pf]
  by (simp add: do_POST_def Let_def)

lemmas handler_defs =
  do_POST_def vsc_deployed_def vsc_withdrawn_def event_type_of_def vsc_duration_def
  pulse_relay_threaded_def record_event_def sleep_def vsc_deployed_names_def
  vsc_withdrawn_names_def

lemmas concrete_defs =
  idle_world_def open_world_def world_at_def initial_globals_def strict_platform_def







text \<open>
  C8, as the claim states it, fails: a JSON object classified as a start event whose
  \<^verbatim>\<open>event\<close> field is a string is answered with 500, not 200.
\<close>

theorem C8_valid_object_answered_500:
  "fst (do_POST strict_platform (Some start_event_bad_event) idle_world) = Error_500"
  by (simp add: handler_defs concrete_defs start_event_bad_event_def Let_def)

text \<open>
  C8, amended. A payload that cannot be read, parsed or printed back, or that is not a JSON
  object, is answered with 500 and changes nothing. Exactly the JSON objects have a
  classification. An object classified as withdraw is answered with 200 and the body
  \<^verbatim>\<open>{"status":"ok"}\<close>. An object classified as neither start nor withdraw is answered with
  200 exactly when its event type can be printed, that is, unless it is a string holding a
  surrogate that the console does not encode; then it is answered with 500. An object
  classified as start is answered with 200 exactly when the duration lookup succeeds, the
  duration can be printed and is a number that converts to a float, the start delay (at
  most 30) is not negative and the deadline is a finite timestamp that
  \<^verbatim>\<open>datetime.fromtimestamp\<close> accepts, and with 500 otherwise.
\<close>

theorem C8_responses:
  "do_POST pf None w = (Error_500, w)
 \<and> (event_type_of data = None \<longleftrightarrow> (\<forall>kvs. data \<noteq> JObj kvs))
 \<and> (event_type_of data = None \<longrightarrow> do_POST pf (Some data) w = (Error_500, w))
 \<and> (event_type_of data = Some et \<and> py_in et vsc_withdrawn_names \<longrightarrow>
      fst (do_POST pf (Some data) w) = Ok_200)
 \<and> (event_type_of data = Some et \<and> \<not> py_in et vsc_deployed_names \<longrightarrow>
      (fst (do_POST pf (Some data) w) = Ok_200 \<longleftrightarrow> print_ok pf et))
 \<and> (print_ok pf (JStr s) \<longleftrightarrow> (\<forall>c \<in> set s. surrogate c \<longrightarrow> surrogate_ok pf c))
 \<and> ((\<forall>s. et \<noteq> JStr s) \<longrightarrow> print_ok pf et)
 \<and> (event_type_of data = Some et \<and> py_in et vsc_deployed_names
      \<and> relay1_delay (glob w) \<le> 30 \<longrightarrow>
      (fst (do_POST pf (Some data) w) = Ok_200 \<longleftrightarrow>
        (\<exists>v d. vsc_duration data = Some v \<and> print_ok pf v \<and> py_number v = Some d
               \<and> 0 \<le> relay1_delay (glob w)
               \<and> fromtimestamp_ok pf (float_add (clock w + relay1_delay (glob w)) d))))"
proof -
  have obj: "event_type_of data = None \<longleftrightarrow> (\<forall>kvs. data \<noteq> JObj kvs)"
    by (cases data) (simp_all add: event_type_of_def)
  have enc: "print_ok pf (JStr s) \<longleftrightarrow> (\<forall>c \<in> set s. surrogate c \<longrightarrow> surrogate_ok pf c)"
    by (simp add: encodable_def list_all_iff)
  have nonstr: "(\<forall>s. et \<noteq> JStr s) \<longrightarrow> print_ok pf et"
    by (cases et) simp_all
  have wd: "event_type_of data = Some et \<and> py_in et vsc_withdrawn_names \<longrightarrow>
      fst (do_POST pf (Some data) w) = Ok_200"
    by (auto simp add: do_POST_withdraw)
  have rest: "do_POST pf None w = (Error_500, w)
    \<and> (event_type_of data = None \<longrightarrow> do_POST pf (Some data) w = (Error_500, w))
    \<and> (event_type_of data = Some et \<and> \<not> py_in et vsc_deployed_names \<longrightarrow>
         (fst (do_POST pf (Some data) w) = Ok_200 \<longleftrightarrow> print_ok pf et))
    \<and> (event_type_of data = Some et \<and> py_in et vsc_deployed_names \<longrightarrow>
         (fst (do_POST pf (Some data) w) = Ok_200 \<longleftrightarrow>
           (\<exists>v d. vsc_duration data = Some v \<and> print_ok pf v \<and> py_number v = Some d
                  \<and> 0 \<le> relay1_delay (glob w)
                  \<and> fromtimestamp_ok pf (float_add (clock w + relay1_delay (glob w)) d))))"
    using deployed_printable [of et pf]
    by (auto simp add: do_POST_def vsc_deployed_def pulse_relay_threaded_def record_event_def
        sleep_def Let_def split: option.splits)
  show ?thesis using obj enc nonstr wd rest by blast
qed

theorem C8_responses_witness:
  "do_POST strict_platform None idle_world = (Error_500, idle_world)
   \<and> do_POST strict_platform (Some (JArr [])) idle_world = (Error_500, idle_world)
   \<and> fst (do_POST strict_platform (Some unknown_event) idle_world) = Ok_200
   \<and> fst (do_POST strict_platform (Some surrogate_event) idle_world) = Error_500
   \<and> fst (do_POST strict_platform (Some withdraw_event) idle_world) = Ok_200
   \<and> fst (do_POST strict_platform (Some start_event) idle_world) = Ok_200
   \<and> fst (do_POST strict_platform (Some start_event_list_data) idle_world) = Error_500
   \<and> fst (do_POST strict_platform (Some start_event_huge_duration) idle_world) = Error_500"
proof -
  note c8 = C8_responses [where pf = strict_platform and w = idle_world]
  have le30: "relay1_delay (glob idle_world) \<le> 30" by (simp add: concrete_defs)
  have a: "do_POST strict_platform None idle_world = (Error_500, idle_world)"
    using c8 by simp
  have b: "do_POST strict_platform (Some (JArr [])) idle_world = (Error_500, idle_world)"
    using c8 [where data = "JArr []"] by (simp add: event_type_of_def)
  have c: "fst (do_POST strict_platform (Some unknown_event) idle_world) = Ok_200"
    using c8 [where data = unknown_event and et = "JStr (py ''foo'')"]
    by (simp add: unknown_event_def event_type_of_def vsc_deployed_names_def)
  have s: "fst (do_POST strict_platform (Some surrogate_event) idle_world) = Error_500"
    using c8 [where data = surrogate_event and et = "JStr [0xD800]" and s = "[0xD800]"]
    by (cases "fst (do_POST strict_platform (Some surrogate_event) idle_world)")
       (simp_all add: surrogate_event_def event_type_of_def vsc_deployed_names_def py_def
          surrogate_def strict_platform_def)
  have d: "fst (do_POST strict_platform (Some withdraw_event) idle_world) = Ok_200"
    using c8 [where data = withdraw_event and et = "JStr (py ''vsc_withdrawn'')"]
    by (simp add: withdraw_event_def event_type_of_def vsc_withdrawn_names_def)
  have "\<exists>v d. vsc_duration start_event = Some v \<and> print_ok strict_platform v
               \<and> py_number v = Some d \<and> 0 \<le> relay1_delay (glob idle_world)
               \<and> fromtimestamp_ok strict_platform
                    (float_add (clock idle_world + relay1_delay (glob idle_world)) d)"
    by (simp add: start_event_def vsc_duration_def concrete_defs int_to_float_ok_small)
  then have e: "fst (do_POST strict_platform (Some start_event) idle_world) = Ok_200"
    using c8 [where data = start_event and et = "JStr (py ''vsc_deployed'')"] le30
    by (simp add: start_event_def event_type_of_def vsc_deployed_names_def)
  have big: "\<not> int_to_float_ok huge_int" by (simp add: int_to_float_ok_def huge_int_def)
  have cl: "py_in (JStr (py ''vsc_deployed'')) vsc_deployed_names"
    by (simp add: vsc_deployed_names_def)
  have et_l: "event_type_of start_event_list_data = Some (JStr (py ''vsc_deployed''))"
    by (simp add: start_event_list_data_def event_type_of_def)
  have no_l: "\<not> (\<exists>v d. vsc_duration start_event_list_data = Some v
               \<and> print_ok strict_platform v
               \<and> py_number v = Some d \<and> 0 \<le> relay1_delay (glob idle_world)
               \<and> fromtimestamp_ok strict_platform
                    (float_add (clock idle_world + relay1_delay (glob idle_world)) d))"
    by (simp add: start_event_list_data_def vsc_duration_def)
  have "fst (do_POST strict_platform (Some start_event_list_data) idle_world) \<noteq> Ok_200"
    using c8 [where data = start_event_list_data and et = "JStr (py ''vsc_deployed'')"]
      et_l cl no_l le30
    by blast
  then have f: "fst (do_POST strict_platform (Some start_event_list_data) idle_world) = Error_500"
    by (cases "fst (do_POST strict_platform (Some start_event_list_data) idle_world)") simp_all
  have et_h: "event_type_of start_event_huge_duration = Some (JStr (py ''vsc_deployed''))"
    by (simp add: start_event_huge_duration_def event_type_of_def)
  have no_h: "\<not> (\<exists>v d. vsc_duration start_event_huge_duration = Some v
               \<and> print_ok strict_platform v
               \<and> py_number v = Some d \<and> 0 \<le> relay1_delay (glob idle_world)
               \<and> fromtimestamp_ok strict_platform
                    (float_add (clock idle_world + relay1_delay (glob idle_world)) d))"
    using big by (simp add: start_event_huge_duration_def vsc_duration_def)
  have "fst (do_POST strict_platform (Some start_event_huge_duration) idle_world) \<noteq> Ok_200"
    using c8 [where data = start_event_huge_duration and et = "JStr (py ''vsc_deployed'')"]
      et_h cl no_h le30
    by blast
  then have h: "fst (do_POST strict_platform (Some start_event_huge_duration) idle_world) =
      Error_500"
    by (cases "fst (do_POST strict_platform (Some start_event_huge_duration) idle_world)")
       simp_all
  show ?thesis using a b c s d e f h by simp
qed

section \<open>The monitor loop and the start sequence: results\<close>

lemma monitor_iteration_closed:
  "\<not> vsc_active (glob w) \<Longrightarrow> monitor_iteration w = w\<lparr>clock := clock w + 0.1\<rparr>"
  by (simp add: monitor_iteration_def)


lemma monitor_iteration_early:
  "vsc_end_time (glob w) = Some e \<Longrightarrow> \<not> float_ge (clock w) e \<Longrightarrow>
     monitor_iteration w = w\<lparr>clock := clock w + 0.1\<rparr>"
  by (simp add: monitor_iteration_def)

lemma monitor_iteration_due:
  "vsc_active (glob w) \<Longrightarrow> vsc_end_time (glob w) = Some e \<Longrightarrow> float_ge (clock w) e \<Longrightarrow>
     monitor_iteration w =
       w\<lparr>threads := threads w @ [(clock w, RELAY2_PIN, ''VSC Timer End'')],
         glob := (glob w)\<lparr>vsc_active := False, vsc_end_time := None\<rparr>,
         clock := clock w + 0.1\<rparr>"
  by (simp add: monitor_iteration_def pulse_relay_threaded_def)






section \<open>Monitor and withdraw handler: results\<close>

text \<open>
  Run by the monitor thread alone, the statements of the interleaved model make up one pass
  of the loop, and the three statements of the withdraw branch make up \<open>vsc_withdrawn\<close>.
\<close>

lemma schedule_monitor_due:
  "vsc_active (glob w) \<Longrightarrow> vsc_end_time (glob w) = Some e \<Longrightarrow> float_ge (clock w) e \<Longrightarrow>
   schedule [Monitor, Monitor, Monitor, Monitor, Monitor, Monitor]
       \<lparr>shared = w, monitor_at = M_test, withdraw_at = pc\<rparr>
     = \<lparr>shared = monitor_iteration w, monitor_at = M_test, withdraw_at = pc\<rparr>"
  by (simp add: monitor_iteration_def pulse_relay_threaded_def)

lemma schedule_monitor_early:
  "vsc_active (glob w) \<Longrightarrow> vsc_end_time (glob w) = Some e \<Longrightarrow> \<not> float_ge (clock w) e \<Longrightarrow>
   schedule [Monitor, Monitor, Monitor] \<lparr>shared = w, monitor_at = M_test, withdraw_at = pc\<rparr>
     = \<lparr>shared = monitor_iteration w, monitor_at = M_test, withdraw_at = pc\<rparr>"
  by (simp add: monitor_iteration_def pulse_relay_threaded_def)

lemma schedule_monitor_closed:
  "\<not> (vsc_active (glob w) \<and> vsc_end_time (glob w) \<noteq> None) \<Longrightarrow>
   schedule [Monitor, Monitor] \<lparr>shared = w, monitor_at = M_test, withdraw_at = pc\<rparr>
     = \<lparr>shared = monitor_iteration w, monitor_at = M_test, withdraw_at = pc\<rparr>"
  by (auto simp add: monitor_iteration_def pulse_relay_threaded_def)

lemma schedule_withdraw:
  "shared (schedule [Server, Server, Server]
             \<lparr>shared = w, monitor_at = pc, withdraw_at = W_pulse\<rparr>)
     = vsc_withdrawn w"
  by (simp add: vsc_withdrawn_def pulse_relay_threaded_def)

lemma act_withdraw:
  assumes "withdraw_class data"
  shows "threads (act pf (Incoming data) w) =
           threads w @ [(clock w, RELAY2_PIN, ''VSC Manual Retract'')]
       \<and> \<not> vsc_active (glob (act pf (Incoming data) w))
       \<and> clock (act pf (Incoming data) w) = clock w"
proof -
  from assms obtain et where "event_type_of data = Some et" and "py_in et vsc_withdrawn_names"
    by (auto simp add: withdraw_class_def split: option.splits)
  then show ?thesis
    by (simp add: do_POST_withdraw vsc_withdrawn_def pulse_relay_threaded_def record_event_def
        Let_def)
qed

lemma run_append: "run pf (as @ bs) w = run pf bs (run pf as w)"
  by (induction as arbitrary: w) simp_all

lemma run_early_polls:
  "vsc_end_time (glob w) = Some e \<Longrightarrow> \<forall>j<k. \<not> float_ge (clock w + real j / 10) e \<Longrightarrow>
     run pf (replicate k Poll) w = w\<lparr>clock := clock w + real k / 10\<rparr>"
proof (induction k arbitrary: w)
  case 0
  then show ?case by simp
next
  case (Suc k)
  have first: "\<not> float_ge (clock w) e" using Suc.prems(2) by force
  let ?w1 = "w\<lparr>clock := clock w + 0.1\<rparr>"
  have step: "monitor_iteration w = ?w1"
    using Suc.prems(1) first by (rule monitor_iteration_early)
  have later: "\<forall>j<k. \<not> float_ge (clock ?w1 + real j / 10) e"
  proof (intro allI impI)
    fix j assume "j < k"
    then have "Suc j < Suc k" by simp
    then have *: "\<not> float_ge (clock w + real (Suc j) / 10) e"
      using Suc.prems(2) by blast
    have eq: "clock ?w1 + real j / 10 = clock w + real (Suc j) / 10"
      by (simp add: add_divide_distrib)
    show "\<not> float_ge (clock ?w1 + real j / 10) e" unfolding eq by (rule *)
  qed
  have "run pf (replicate k Poll) ?w1 = ?w1\<lparr>clock := clock ?w1 + real k / 10\<rparr>"
    using Suc.IH [of ?w1] Suc.prems(1) later by simp
  then show ?case using step by (simp add: field_simps)
qed

lemma run_closed:
  "\<not> vsc_active (glob w) \<Longrightarrow> \<forall>a \<in> set as. poll_or_withdraw a \<Longrightarrow>
     \<exists>ps. threads (run pf as w) = threads w @ ps
        \<and> (\<forall>p \<in> set ps. snd p = (RELAY2_PIN, ''VSC Manual Retract''))
        \<and> length ps = length (filter (\<lambda>b. b \<noteq> Poll) as)
        \<and> \<not> vsc_active (glob (run pf as w))"
proof (induction as arbitrary: w)
  case Nil
  then show ?case by simp
next
  case (Cons a as)
  have rest: "\<forall>a \<in> set as. poll_or_withdraw a" using Cons.prems(2) by simp
  show ?case
  proof (cases a)
    case Poll
    have "act pf a w = w\<lparr>clock := clock w + 0.1\<rparr>"
      using Poll Cons.prems(1) by (simp add: monitor_iteration_closed)
    then show ?thesis
      using Cons.IH [of "w\<lparr>clock := clock w + 0.1\<rparr>"] Cons.prems(1) rest Poll by simp
  next
    case (Incoming data)
    then have wc: "withdraw_class data" using Cons.prems(2) by simp
    let ?w1 = "act pf a w"
    have t1: "threads ?w1 = threads w @ [(clock w, RELAY2_PIN, ''VSC Manual Retract'')]"
      and c1: "\<not> vsc_active (glob ?w1)"
      using act_withdraw [OF wc, of pf w] Incoming by simp_all
    from Cons.IH [OF c1 rest] obtain ps where
      ps: "threads (run pf as ?w1) = threads ?w1 @ ps"
          "\<forall>p \<in> set ps. snd p = (RELAY2_PIN, ''VSC Manual Retract'')"
          "length ps = length (filter (\<lambda>b. b \<noteq> Poll) as)"
          "\<not> vsc_active (glob (run pf as ?w1))"
      by blast
    show ?thesis
      using ps t1 Incoming
      by (intro exI [of _ "(clock w, RELAY2_PIN, ''VSC Manual Retract'') # ps"]) simp
  qed
qed

text \<open>
  C1, as the claim states it, fails: the test, the pulse and the clearing of the window are
  separate statements under no lock. With a window that is open and due, the monitor tests
  and compares, the server thread then runs the whole withdraw branch, and the monitor goes
  on to its pulse: two end pulses on Relay 2 are started for the one window.
\<close>

theorem C1_race_two_end_pulses:
  "vsc_active (glob (shared racing)) \<and> vsc_end_time (glob (shared racing)) = Some (Finite 65)
   \<and> threads (shared racing) = []
   \<and> threads (shared (schedule [Monitor, Monitor, Server, Server, Server, Monitor] racing)) =
       [(70, RELAY2_PIN, ''VSC Manual Retract''), (70, RELAY2_PIN, ''VSC Timer End'')]"
  by (simp add: racing_def open_world_def world_at_def initial_globals_def
      pulse_relay_threaded_def)

text \<open>
  C1, amended. The code takes no lock, so the guarantee holds only when every pass of the
  monitor loop and every withdraw handler runs to its end before the next one starts. Then,
  from an open window with a deadline: the polls of the monitor that fall before the
  deadline start nothing and leave the window open with its deadline; the first poll at or
  after the deadline starts exactly one end pulse on Relay 2, at that poll, and closes the
  window; a withdraw-class event handled while the window is still open starts exactly one
  end pulse at that moment and closes the window. After the window is closed the monitor
  starts nothing, and each later withdraw-class event starts one more pulse on Relay 2. So
  for one window the monitor and a withdraw never both start the closing end pulse.
\<close>

theorem C1_one_end_pulse_closes_window:
  assumes "vsc_active (glob w)" and "vsc_end_time (glob w) = Some e"
    and "\<forall>j<k. \<not> float_ge (clock w + real j / 10) e"
    and "\<forall>b \<in> set rest. poll_or_withdraw b"
  shows "threads (run pf (replicate k Poll) w) = threads w
       \<and> vsc_active (glob (run pf (replicate k Poll) w))
       \<and> vsc_end_time (glob (run pf (replicate k Poll) w)) = Some e
       \<and> (float_ge (clock w + real k / 10) e \<longrightarrow>
            (\<exists>ps. threads (run pf (replicate k Poll @ Poll # rest) w) =
                     threads w @ (clock w + real k / 10, RELAY2_PIN, ''VSC Timer End'') # ps
                 \<and> (\<forall>p \<in> set ps. snd p = (RELAY2_PIN, ''VSC Manual Retract''))
                 \<and> length ps = length (filter (\<lambda>b. b \<noteq> Poll) rest)
                 \<and> \<not> vsc_active (glob (run pf (replicate k Poll @ Poll # rest) w))))
       \<and> (withdraw_class data \<longrightarrow>
            (\<exists>ps. threads (run pf (replicate k Poll @ Incoming data # rest) w) =
                     threads w @ (clock w + real k / 10, RELAY2_PIN, ''VSC Manual Retract'') # ps
                 \<and> (\<forall>p \<in> set ps. snd p = (RELAY2_PIN, ''VSC Manual Retract''))
                 \<and> length ps = length (filter (\<lambda>b. b \<noteq> Poll) rest)
                 \<and> \<not> vsc_active (glob (run pf (replicate k Poll @ Incoming data # rest) w))))"
proof -
  let ?wk = "w\<lparr>clock := clock w + real k / 10\<rparr>"
  have polls: "run pf (replicate k Poll) w = ?wk"
    using assms(2,3) by (rule run_early_polls)
  have still: "threads (run pf (replicate k Poll) w) = threads w
       \<and> vsc_active (glob (run pf (replicate k Poll) w))
       \<and> vsc_end_time (glob (run pf (replicate k Poll) w)) = Some e"
    using polls assms(1,2) by simp
  have closing: "\<exists>ps. threads (run pf (replicate k Poll @ a # rest) w) = threads w @ p # ps
                 \<and> (\<forall>p \<in> set ps. snd p = (RELAY2_PIN, ''VSC Manual Retract''))
                 \<and> length ps = length (filter (\<lambda>b. b \<noteq> Poll) rest)
                 \<and> \<not> vsc_active (glob (run pf (replicate k Poll @ a # rest) w))"
    if t1: "threads (act pf a ?wk) = threads w @ [p]"
      and c1: "\<not> vsc_active (glob (act pf a ?wk))" for a p
  proof -
    from run_closed [OF c1 assms(4)] obtain ps where
      ps: "threads (run pf rest (act pf a ?wk)) = threads (act pf a ?wk) @ ps"
          "\<forall>p \<in> set ps. snd p = (RELAY2_PIN, ''VSC Manual Retract'')"
          "length ps = length (filter (\<lambda>b. b \<noteq> Poll) rest)"
          "\<not> vsc_active (glob (run pf rest (act pf a ?wk)))"
      by blast
    have "run pf (replicate k Poll @ a # rest) w = run pf rest (act pf a ?wk)"
      by (simp add: run_append polls)
    then show ?thesis using ps t1 by (intro exI [of _ ps]) simp
  qed
  have timer: "float_ge (clock w + real k / 10) e \<longrightarrow>
            (\<exists>ps. threads (run pf (replicate k Poll @ Poll # rest) w) =
                     threads w @ (clock w + real k / 10, RELAY2_PIN, ''VSC Timer End'') # ps
                 \<and> (\<forall>p \<in> set ps. snd p = (RELAY2_PIN, ''VSC Manual Retract''))
                 \<and> length ps = length (filter (\<lambda>b. b \<noteq> Poll) rest)
                 \<and> \<not> vsc_active (glob (run pf (replicate k Poll @ Poll # rest) w)))"
  proof
    assume due: "float_ge (clock w + real k / 10) e"
    have a: "vsc_active (glob ?wk)" and b: "vsc_end_time (glob ?wk) = Some e"
      and c: "float_ge (clock ?wk) e"
      using assms(1,2) due by simp_all
    have "act pf Poll ?wk =
        ?wk\<lparr>threads := threads ?wk @ [(clock ?wk, RELAY2_PIN, ''VSC Timer End'')],
         glob := (glob ?wk)\<lparr>vsc_active := False, vsc_end_time := None\<rparr>,
         clock := clock ?wk + 0.1\<rparr>"
      using monitor_iteration_due [OF a b c] by simp
    then have "threads (act pf Poll ?wk) =
          threads w @ [(clock w + real k / 10, RELAY2_PIN, ''VSC Timer End'')]"
      and "\<not> vsc_active (glob (act pf Poll ?wk))"
      by simp_all
    then show "\<exists>ps. threads (run pf (replicate k Poll @ Poll # rest) w) =
                     threads w @ (clock w + real k / 10, RELAY2_PIN, ''VSC Timer End'') # ps
                 \<and> (\<forall>p \<in> set ps. snd p = (RELAY2_PIN, ''VSC Manual Retract''))
                 \<and> length ps = length (filter (\<lambda>b. b \<noteq> Poll) rest)
                 \<and> \<not> vsc_active (glob (run pf (replicate k Poll @ Poll # rest) w))"
      by (rule closing)
  qed
  have retract: "withdraw_class data \<longrightarrow>
            (\<exists>ps. threads (run pf (replicate k Poll @ Incoming data # rest) w) =
                     threads w @ (clock w + real k / 10, RELAY2_PIN, ''VSC Manual Retract'') # ps
                 \<and> (\<forall>p \<in> set ps. snd p = (RELAY2_PIN, ''VSC Manual Retract''))
                 \<and> length ps = length (filter (\<lambda>b. b \<noteq> Poll) rest)
                 \<and> \<not> vsc_active (glob (run pf (replicate k Poll @ Incoming data # rest) w)))"
  proof
    assume wc: "withdraw_class data"
    have "threads (act pf (Incoming data) ?wk) =
          threads w @ [(clock w + real k / 10, RELAY2_PIN, ''VSC Manual Retract'')]"
      and "\<not> vsc_active (glob (act pf (Incoming data) ?wk))"
      using act_withdraw [OF wc, of pf ?wk] by simp_all
    then show "\<exists>ps. threads (run pf (replicate k Poll @ Incoming data # rest) w) =
                     threads w @ (clock w + real k / 10, RELAY2_PIN, ''VSC Manual Retract'') # ps
                 \<and> (\<forall>p \<in> set ps. snd p = (RELAY2_PIN, ''VSC Manual Retract''))
                 \<and> length ps = length (filter (\<lambda>b. b \<noteq> Poll) rest)
                 \<and> \<not> vsc_active (glob (run pf (replicate k Poll @ Incoming data # rest) w))"
      by (rule closing)
  qed
  show ?thesis using still timer retract by blast
qed

theorem C1_one_end_pulse_closes_window_witness:
  "vsc_active (glob waiting_world) \<and> vsc_end_time (glob waiting_world) = Some (Finite 65)
   \<and> clock waiting_world = 64.85
   \<and> poll_or_withdraw (Incoming withdraw_event)
   \<and> threads (run strict_platform [Poll, Poll] waiting_world) = []
   \<and> vsc_active (glob (run strict_platform [Poll, Poll] waiting_world))
   \<and> (\<exists>ps. threads (run strict_platform
                [Poll, Poll, Poll, Incoming withdraw_event, Poll] waiting_world) =
              (65.05, RELAY2_PIN, ''VSC Timer End'') # ps
          \<and> (\<forall>p \<in> set ps. snd p = (RELAY2_PIN, ''VSC Manual Retract''))
          \<and> length ps = 1
          \<and> \<not> vsc_active (glob (run strict_platform
                [Poll, Poll, Poll, Incoming withdraw_event, Poll] waiting_world)))
   \<and> (\<exists>ps. threads (run strict_platform
                [Poll, Poll, Incoming withdraw_event, Poll, Poll] waiting_world) =
              (65.05, RELAY2_PIN, ''VSC Manual Retract'') # ps
          \<and> (\<forall>p \<in> set ps. snd p = (RELAY2_PIN, ''VSC Manual Retract''))
          \<and> length ps = 0
          \<and> \<not> vsc_active (glob (run strict_platform
                [Poll, Poll, Incoming withdraw_event, Poll, Poll] waiting_world)))"
proof -
  have a: "vsc_active (glob waiting_world)"
    and b: "vsc_end_time (glob waiting_world) = Some (Finite 65)"
    and c: "clock waiting_world = 64.85" and t: "threads waiting_world = []"
    by (simp_all add: waiting_world_def world_at_def)
  have wc: "withdraw_class withdraw_event"
    by (simp add: withdraw_class_def withdraw_event_def event_type_of_def
        vsc_withdrawn_names_def)
  have early: "\<forall>j<2. \<not> float_ge (clock waiting_world + real j / 10) (Finite 65)"
  proof (intro allI impI)
    fix j :: nat assume "j < 2"
    then have "j = 0 \<or> j = 1" by auto
    then show "\<not> float_ge (clock waiting_world + real j / 10) (Finite 65)"
      using c by auto
  qed
  have due: "float_ge (clock waiting_world + real (2::nat) / 10) (Finite 65)"
    using c by simp
  have r1: "\<forall>b \<in> set [Incoming withdraw_event, Poll]. poll_or_withdraw b"
    and r2: "\<forall>b \<in> set [Poll, Poll]. poll_or_withdraw b"
    using wc by simp_all
  have two: "replicate 2 Poll = [Poll, Poll]" by (simp add: numeral_2_eq_2)
  note first = C1_one_end_pulse_closes_window
      [OF a b early r1, of strict_platform withdraw_event, unfolded two]
  note second = C1_one_end_pulse_closes_window
      [OF a b early r2, of strict_platform withdraw_event, unfolded two]
  have t65: "clock waiting_world + real (2::nat) / 10 = 65.05" using c by simp
  have f1: "\<exists>ps. threads (run strict_platform
                ([Poll, Poll] @ Poll # [Incoming withdraw_event, Poll]) waiting_world) =
              threads waiting_world @ (65.05, RELAY2_PIN, ''VSC Timer End'') # ps
          \<and> (\<forall>p \<in> set ps. snd p = (RELAY2_PIN, ''VSC Manual Retract''))
          \<and> length ps = length (filter (\<lambda>b. b \<noteq> Poll) [Incoming withdraw_event, Poll])
          \<and> \<not> vsc_active (glob (run strict_platform
                ([Poll, Poll] @ Poll # [Incoming withdraw_event, Poll]) waiting_world))"
    using first due unfolding t65 by blast
  have f2: "\<exists>ps. threads (run strict_platform
                ([Poll, Poll] @ Incoming withdraw_event # [Poll, Poll]) waiting_world) =
              threads waiting_world @ (65.05, RELAY2_PIN, ''VSC Manual Retract'') # ps
          \<and> (\<forall>p \<in> set ps. snd p = (RELAY2_PIN, ''VSC Manual Retract''))
          \<and> length ps = length (filter (\<lambda>b. b \<noteq> Poll) [Poll, Poll])
          \<and> \<not> vsc_active (glob (run strict_platform
                ([Poll, Poll] @ Incoming withdraw_event # [Poll, Poll]) waiting_world))"
    using second wc unfolding t65 by blast
  have f0: "threads (run strict_platform [Poll, Poll] waiting_world) = threads waiting_world
       \<and> vsc_active (glob (run strict_platform [Poll, Poll] waiting_world))"
    using first by blast
  show ?thesis
    using f0 f1 f2 wc a b c t by simp
qed

section \<open>The ingestion server: results\<close>

text \<open>
  C5, as the claim states it, fails: with a start delay of 5, a start event arriving at
  time 0 and a withdraw event arriving at time 1, the end pulse is started at time 5, not
  at time 1, and after the start pulse rather than before it.
\<close>

theorem C5_withdraw_waits_for_delay:
  "threads (serve_forever strict_platform [(0, Some start_event), (1, Some withdraw_event)]
     idle_world) =
     [(5, RELAY1_PIN, ''VSC Start''), (5, RELAY2_PIN, ''VSC Manual Retract'')]"
  by (simp add: handler_defs concrete_defs start_event_def withdraw_event_def Let_def
      int_to_float_ok_small)

text \<open>
  C5, amended. The start-delay wait runs inside the handler of the start event, on the
  server thread that handles one request at a time: a withdraw event arriving before the
  delay has elapsed is handled when the start handler has returned. For a start event whose
  handler reaches the wait (its duration was found and printed): the start pulse is started
  when the delay has elapsed, the end pulse is started then too, after the start pulse, and
  the window is left closed.
\<close>

theorem C5_delay_blocks_ingestion:
  assumes "event_type_of start = Some et" and "py_in et vsc_deployed_names"
    and "vsc_duration start = Some v" and "print_ok pf v"
    and "withdraw_class withdraw"
    and "0 \<le> relay1_delay (glob w)"
    and "clock w \<le> t0" and "t0 \<le> t1" and "t1 \<le> t0 + relay1_delay (glob w)"
    and "w' = serve_forever pf [(t0, Some start), (t1, Some withdraw)] w"
  shows "threads w' = threads w @
           [(t0 + relay1_delay (glob w), RELAY1_PIN, ''VSC Start''),
            (t0 + relay1_delay (glob w), RELAY2_PIN, ''VSC Manual Retract'')]
       \<and> \<not> vsc_active (glob w') \<and> vsc_end_time (glob w') = None"
proof -
  from assms(5) obtain et2 where
    w2: "event_type_of withdraw = Some et2" "py_in et2 vsc_withdrawn_names"
    by (auto simp add: withdraw_class_def split: option.splits)
  let ?w1 = "snd (do_POST pf (Some start) (w\<lparr>clock := max (clock w) t0\<rparr>))"
  have m: "max (clock w) t0 = t0" using assms(7) by simp
  have pr: "print_ok pf et" using deployed_printable [OF assms(2)] .
  have c1: "clock ?w1 = t0 + relay1_delay (glob w)"
    and t1: "threads ?w1 = threads w @ [(t0 + relay1_delay (glob w), RELAY1_PIN, ''VSC Start'')]"
    using assms(1,2,3,4,6) m pr
    by (auto simp add: do_POST_def vsc_deployed_def pulse_relay_threaded_def record_event_def
        sleep_def Let_def split: option.splits)
  have m2: "max (clock ?w1) t1 = t0 + relay1_delay (glob w)" using c1 assms(9) by simp
  have "w' = snd (do_POST pf (Some withdraw) (?w1\<lparr>clock := t0 + relay1_delay (glob w)\<rparr>))"
    using assms(10) m2 by simp
  then show ?thesis
    using t1
    by (simp add: do_POST_withdraw [OF w2] vsc_withdrawn_def pulse_relay_threaded_def
        record_event_def Let_def)
qed

theorem C5_delay_blocks_ingestion_witness:
  "event_type_of start_event = Some (JStr (py ''vsc_deployed''))
   \<and> py_in (JStr (py ''vsc_deployed'')) vsc_deployed_names
   \<and> vsc_duration start_event = Some (JInt 60)
   \<and> withdraw_class withdraw_event
   \<and> relay1_delay (glob idle_world) = 5 \<and> clock idle_world = 0
   \<and> threads (serve_forever strict_platform [(0, Some start_event), (1, Some withdraw_event)]
        idle_world) =
       [(5, RELAY1_PIN, ''VSC Start''), (5, RELAY2_PIN, ''VSC Manual Retract'')]
   \<and> \<not> vsc_active (glob (serve_forever strict_platform
          [(0, Some start_event), (1, Some withdraw_event)] idle_world))"
proof -
  have h1: "event_type_of start_event = Some (JStr (py ''vsc_deployed''))"
    by (simp add: start_event_def event_type_of_def)
  have h2: "py_in (JStr (py ''vsc_deployed'')) vsc_deployed_names"
    by (simp add: vsc_deployed_names_def)
  have h3: "vsc_duration start_event = Some (JInt 60)"
    by (simp add: start_event_def vsc_duration_def)
  have h3p: "print_ok strict_platform (JInt 60)" by simp
  have h4: "withdraw_class withdraw_event"
    by (simp add: withdraw_class_def withdraw_event_def event_type_of_def
        vsc_withdrawn_names_def)
  have g: "relay1_delay (glob idle_world) = 5" "clock idle_world = 0" "threads idle_world = []"
    by (simp_all add: idle_world_def world_at_def initial_globals_def)
  have h5: "0 \<le> relay1_delay (glob idle_world)" and h6: "clock idle_world \<le> 0"
    and h7: "(0::real) \<le> 1" and h8: "1 \<le> 0 + relay1_delay (glob idle_world)"
    using g by simp_all
  show ?thesis
    using C5_delay_blocks_ingestion [OF h1 h2 h3 h3p h4 h5 h6 h7 h8 refl]
      h1 h2 h3 h4 g
    by simp
qed

section \<open>Configuration bounds: results\<close>

text \<open>
  C6, as the claim states it, fails: \<^verbatim>\<open>load_config\<close> applies the stored pulse duration
  without a bounds check, so a file holding pulse duration 10 leaves the program with a
  pulse duration outside [0.1, 5.0].
\<close>

theorem C6_load_out_of_bounds:
  "\<not> config_in_bounds (startup True (Stored [(''pulse_duration'', 10), (''relay1_delay'', 5)]))"
  by (simp add: config_in_bounds_def startup_def load_config_def config_get_def initial_globals_def)

text \<open>
  C6, amended. The bounds (pulse duration in [0.1, 5.0], start delay in [0, 30]) hold for
  the import-time defaults and are preserved by every \<^verbatim>\<open>/set-pulse\<close> update: a field that is
  out of range is not applied and the value before it stays. The startup load makes no
  bounds check; it preserves the bounds when the stored values lie within them, and every
  file that an update writes from values within the bounds is such a file.
\<close>

theorem C6_bounds:
  "config_in_bounds (initial_globals gpio)
 \<and> (config_in_bounds g \<longrightarrow> config_in_bounds (fst (snd (set_pulse writable fd fl (g, cf)))))
 \<and> (\<not> (0.1 \<le> d \<and> d \<le> 5) \<longrightarrow>
       pulse_duration (fst (snd (set_pulse writable (Given d) fl (g, cf)))) = pulse_duration g)
 \<and> (\<not> (0 \<le> l \<and> l \<le> 30) \<longrightarrow>
       relay1_delay (fst (snd (set_pulse writable fd (Given l) (g, cf)))) = relay1_delay g)
 \<and> (config_in_bounds g \<and> stored_in_bounds cf \<longrightarrow> config_in_bounds (load_config cf g))
 \<and> (config_in_bounds g \<and> stored_in_bounds cf \<longrightarrow>
       stored_in_bounds (snd (snd (set_pulse writable fd fl (g, cf)))))"
  by (cases fd; cases fl)
     (auto simp add: config_in_bounds_def stored_in_bounds_def set_pulse_def save_config_def
        load_config_def config_get_def initial_globals_def Let_def split: config_file.splits)

theorem C6_bounds_witness:
  "config_in_bounds (initial_globals True)
   \<and> stored_in_bounds (Stored [(''pulse_duration'', 2), (''relay1_delay'', 12)])
   \<and> pulse_duration
       (fst (snd (set_pulse True (Given 10) (Given 12) (initial_globals True, NoFile)))) = 0.5
   \<and> relay1_delay
       (fst (snd (set_pulse True (Given 2) (Given 31) (initial_globals True, NoFile)))) = 5
   \<and> config_in_bounds
       (fst (snd (set_pulse True (Given 10) (Given 12) (initial_globals True, NoFile))))
   \<and> config_in_bounds
       (load_config (Stored [(''pulse_duration'', 2), (''relay1_delay'', 12)])
          (initial_globals True))
   \<and> stored_in_bounds
       (snd (snd (set_pulse True (Given 10) (Given 12) (initial_globals True, NoFile))))"
proof -
  have s: "stored_in_bounds (Stored [(''pulse_duration'', 2), (''relay1_delay'', 12)])"
    and n: "stored_in_bounds NoFile"
    by (simp_all add: stored_in_bounds_def config_get_def)
  note a = C6_bounds [where gpio = True and g = "initial_globals True" and writable = True
      and fd = "Given 10" and fl = "Given 12" and d = 10 and l = 31 and cf = NoFile]
  note b = C6_bounds [where gpio = True and g = "initial_globals True" and writable = True
      and fd = "Given 2" and fl = "Given 12" and d = 10 and l = 31 and cf = NoFile]
  note c = C6_bounds [where gpio = True and g = "initial_globals True"
      and cf = "Stored [(''pulse_duration'', 2), (''relay1_delay'', 12)]"]
  have i: "pulse_duration (initial_globals True) = 0.5" "relay1_delay (initial_globals True) = 5"
    by (simp_all add: initial_globals_def)
  show ?thesis using a b c s n i by simp
qed

end
